theory Spec2Isabelle
  imports Main "HOL-Library.Word"
begin

section \<open>Python strings and exceptions\<close>

text \<open>
  A Python \<open>str\<close> is kept as the list of the bytes of its UTF-8 encoding, a \<open>bytes\<close>
  object as the list of its bytes. Every string literal of the source is ASCII, so
  \<open>startswith\<close>, slicing off an ASCII prefix and comparison agree on both views.
\<close>

definition startswith :: "string \<Rightarrow> string \<Rightarrow> bool" where
  "startswith s p = (take (length p) s = p)"

definition digit_char :: "nat \<Rightarrow> char" where
  "digit_char d = ''0123456789'' ! d"

text \<open>\<open>str(n)\<close> for a Python int: decimal digits, a minus sign when negative.\<close>

fun str_nat :: "nat \<Rightarrow> string" where
  "str_nat n = (if n < 10 then [digit_char n] else str_nat (n div 10) @ [digit_char (n mod 10)])"

declare str_nat.simps [simp del]

definition str_int :: "int \<Rightarrow> string" where
  "str_int i = (if i < 0 then CHR ''-'' # str_nat (nat (- i)) else str_nat (nat i))"

text \<open>
  Exceptions. \<open>AssertionError\<close> is what \<open>assert\<close> raises, with its message.
  \<open>JSONDecodeError\<close> is the one class the source catches. \<open>UnicodeDecodeError\<close> comes
  out of decoding bytes that are not UTF-8, \<open>AttributeError\<close> out of an attribute the
  object does not have. \<open>OtherException\<close> is any other class, by name.
\<close>

datatype exn =
    AssertionError string
  | JSONDecodeError
  | UnicodeDecodeError
  | AttributeError
  | OtherException string

section \<open>Responses\<close>

text \<open>
  A line as \<open>iter_lines()\<close> yields it. An \<open>httpx.Response\<close> yields \<open>str\<close> lines; an
  object standing in for one can yield \<open>bytes\<close> lines.
\<close>

datatype line = StrLine string | BytesLine string

text \<open>
  What the source reads of an \<open>httpx.Response\<close>: the attributes \<open>status_code\<close>,
  \<open>reason_phrase\<close> and \<open>text\<close>, the outcome of the method \<open>json()\<close> (the decoded
  body, of type \<open>'v\<close>, or the exception it raises: \<open>JSONDecodeError\<close> on text that is
  not JSON, \<open>UnicodeDecodeError\<close> on a body that is not UTF-8), and the lines
  \<open>iter_lines()\<close> yields.
\<close>

record 'v response =
  status_code :: int
  reason_phrase :: string
  resp_text :: string
  json :: "exn + 'v"
  iter_lines :: "line list"

section \<open>Status checks of \<open>BaseApi\<close>\<close>

text \<open>
  \<open>assert str(response.status_code).startswith('2'), f'Response code = ..., error = ...'\<close>
\<close>

definition check_status_code_success :: "'v response \<Rightarrow> exn + unit" where
  "check_status_code_success response =
     (if startswith (str_int (status_code response)) ''2'' then Inr ()
      else Inl (AssertionError (''Response code = '' @ str_int (status_code response)
             @ '', error = '' @ reason_phrase response @ '' '' @ resp_text response)))"

text \<open>
  \<open>parse_response_to_json\<close> returns \<open>response.json()\<close>. The second component counts
  the calls of \<open>response.json()\<close>, the observable effect of a parse attempt.
\<close>

definition parse_response_to_json :: "'v response \<Rightarrow> (exn + 'v) \<times> nat" where
  "parse_response_to_json response = (json response, 1)"

text \<open>The local variable \<open>error\<close> of \<open>check_status_code\<close>.\<close>

datatype 'v diagnostic = NoError | ErrorBody 'v | ErrorText string

text \<open>
  How the f-string renders \<open>error\<close>: \<open>None\<close> as \<open>None\<close>, a string as itself, a decoded
  body by Python's \<open>str\<close> on it, which is the parameter \<open>py_str\<close>.
\<close>

fun format_diagnostic :: "('v \<Rightarrow> string) \<Rightarrow> 'v diagnostic \<Rightarrow> string" where
  "format_diagnostic py_str NoError = ''None''"
| "format_diagnostic py_str (ErrorBody v) = py_str v"
| "format_diagnostic py_str (ErrorText s) = s"

text \<open>
  \<open>check_status_code\<close>: the result (silent return or the exception raised) and the
  number of times the body was parsed. The diagnostic is computed first, the assertion
  on the status comes after it, as in the source. \<open>except JSONDecodeError\<close> catches that
  class alone: any other exception out of \<open>response.json()\<close> leaves the function
  before the assertion is reached.
\<close>

definition check_status_code :: "('v \<Rightarrow> string) \<Rightarrow> 'v response \<Rightarrow> int \<Rightarrow> (exn + unit) \<times> nat" where
  "check_status_code py_str response expected_code =
     (case (if status_code response = 200 then (Inr NoError, 0)
            else (case parse_response_to_json response of
                    (Inr v, k) \<Rightarrow> (Inr (ErrorBody v), k)
                  | (Inl e, k) \<Rightarrow>
                      if e = JSONDecodeError then (Inr (ErrorText ''Unable to parse error''), k)
                      else (Inl e, k))) of
        (Inl e, k) \<Rightarrow> (Inl e, k)
      | (Inr error, k) \<Rightarrow>
          (if status_code response = expected_code then Inr ()
           else Inl (AssertionError
                  (''Wrong response code. Expected = '' @ str_int expected_code
                     @ '', received = '' @ str_int (status_code response)
                     @ '' | error = '' @ format_diagnostic py_str error)), k))"

section \<open>The stream decoder of \<open>ChatApi\<close>\<close>

text \<open>
  \<open>bytes.decode('utf-8')\<close> fails with \<open>UnicodeDecodeError\<close> unless the bytes are
  well-formed UTF-8 (the byte ranges of the Unicode standard: no overlong forms, no
  surrogates, nothing above U+10FFFF). The result, as UTF-8, is the same bytes.
\<close>

definition cont_byte :: "nat \<Rightarrow> bool" where
  "cont_byte b = (0x80 \<le> b \<and> b \<le> 0xBF)"

fun utf8_wellformed :: "nat list \<Rightarrow> bool" where
  "utf8_wellformed [] = True"
| "utf8_wellformed (a # bs) =
     (if a < 0x80 then utf8_wellformed bs
      else if 0xC2 \<le> a \<and> a \<le> 0xDF then
        (case bs of
           b # cs \<Rightarrow> cont_byte b \<and> utf8_wellformed cs
         | _ \<Rightarrow> False)
      else if 0xE0 \<le> a \<and> a \<le> 0xEF then
        (case bs of
           b # c # ds \<Rightarrow>
             (if a = 0xE0 then 0xA0 \<le> b \<and> b \<le> 0xBF
              else if a = 0xED then 0x80 \<le> b \<and> b \<le> 0x9F
              else cont_byte b)
             \<and> cont_byte c \<and> utf8_wellformed ds
         | _ \<Rightarrow> False)
      else if 0xF0 \<le> a \<and> a \<le> 0xF4 then
        (case bs of
           b # c # d # es \<Rightarrow>
             (if a = 0xF0 then 0x90 \<le> b \<and> b \<le> 0xBF
              else if a = 0xF4 then 0x80 \<le> b \<and> b \<le> 0x8F
              else cont_byte b)
             \<and> cont_byte c \<and> cont_byte d \<and> utf8_wellformed es
         | _ \<Rightarrow> False)
      else False)"

definition decode_utf8 :: "string \<Rightarrow> exn + string" where
  "decode_utf8 bs =
     (if utf8_wellformed (map of_char bs) then Inr bs else Inl UnicodeDecodeError)"

text \<open>\<open>if line:\<close> holds for a non-empty \<open>str\<close> or \<open>bytes\<close>.\<close>

fun line_truthy :: "line \<Rightarrow> bool" where
  "line_truthy (StrLine s) = (s \<noteq> [])"
| "line_truthy (BytesLine b) = (b \<noteq> [])"

text \<open>
  \<open>line.decode('utf-8')\<close>: a \<open>str\<close> has no method \<open>decode\<close>, so the attribute lookup
  raises \<open>AttributeError\<close>; on \<open>bytes\<close> it is the UTF-8 decoder.
\<close>

fun line_decode :: "line \<Rightarrow> exn + string" where
  "line_decode (StrLine s) = Inl AttributeError"
| "line_decode (BytesLine b) = decode_utf8 b"

text \<open>
  The loop of \<open>parse_stream_data\<close> over the lines, with the list \<open>chunks\<close> built so
  far. \<open>json.loads\<close> is the parameter \<open>loads\<close>: it returns the decoded value or raises;
  \<open>except json.JSONDecodeError\<close> skips the line on that class alone.
\<close>

fun parse_lines :: "(string \<Rightarrow> exn + 'v) \<Rightarrow> line list \<Rightarrow> 'v list \<Rightarrow> exn + 'v list" where
  "parse_lines loads [] chunks = Inr chunks"
| "parse_lines loads (line # rest) chunks =
     (if line_truthy line then
        (case line_decode line of
           Inl e \<Rightarrow> Inl e
         | Inr line_str \<Rightarrow>
             (if startswith line_str ''data: '' then
                (let json_str = drop 6 line_str in
                 if json_str \<noteq> ''[DONE]'' then
                   (case loads json_str of
                      Inr chunk \<Rightarrow> parse_lines loads rest (chunks @ [chunk])
                    | Inl e \<Rightarrow>
                        if e = JSONDecodeError then parse_lines loads rest chunks
                        else Inl e)
                 else parse_lines loads rest chunks)
              else parse_lines loads rest chunks))
      else parse_lines loads rest chunks)"

definition parse_stream_data :: "(string \<Rightarrow> exn + 'v) \<Rightarrow> 'w response \<Rightarrow> exn + 'v list" where
  "parse_stream_data loads response = parse_lines loads (iter_lines response) []"

section \<open>Sessions: \<open>BaseApi\<close> objects on a heap\<close>

text \<open>
  A header dict is an association list in insertion order. \<open>d[k] = v\<close> replaces the
  value of an existing key in place and appends a new key.
\<close>

type_synonym header_dict = "(string \<times> string) list"

fun dict_setitem :: "header_dict \<Rightarrow> string \<Rightarrow> string \<Rightarrow> header_dict" where
  "dict_setitem [] k v = [(k, v)]"
| "dict_setitem ((k', v') # d) k v =
     (if k' = k then (k, v) # d else (k', v') # dict_setitem d k v)"

text \<open>
  Objects live at addresses. The state of an \<open>httpx.Client\<close> is the arguments it was
  constructed with (the header dict by reference), the copy of those headers that
  the client takes at construction and keeps as its own defaults, and whether it has
  been closed.
\<close>

type_synonym addr = nat

record client_state =
  client_headers :: addr
  client_default_headers :: header_dict
  client_timeout :: nat
  client_http2 :: bool
  is_closed :: bool

record heap =
  dict_store :: "addr \<Rightarrow> header_dict"
  client_store :: "addr \<Rightarrow> client_state"
  next_free :: addr

text \<open>
  A \<open>BaseApi\<close> object. The attribute \<open>client\<close> is absent (\<open>None\<close>) on an object whose
  constructor did not get as far as assigning it, which is what \<open>hasattr\<close> tests.
\<close>

record base_api =
  base_url :: string
  headers :: addr
  client :: "addr option"

text \<open>A dict display and a constructor call each allocate a fresh object.\<close>

definition new_dict :: "header_dict \<Rightarrow> heap \<Rightarrow> addr \<times> heap" where
  "new_dict d h =
     (next_free h, h\<lparr>dict_store := (dict_store h)(next_free h := d), next_free := Suc (next_free h)\<rparr>)"

definition new_client :: "client_state \<Rightarrow> heap \<Rightarrow> addr \<times> heap" where
  "new_client c h =
     (next_free h, h\<lparr>client_store := (client_store h)(next_free h := c), next_free := Suc (next_free h)\<rparr>)"

text \<open>\<open>d[k] = v\<close> on the dict object at address \<open>a\<close>.\<close>

definition setitem :: "addr \<Rightarrow> string \<Rightarrow> string \<Rightarrow> heap \<Rightarrow> heap" where
  "setitem a k v h = h\<lparr>dict_store := (dict_store h)(a := dict_setitem (dict_store h a) k v)\<rparr>"

text \<open>
  \<open>BaseApi.__init__(base_url, token)\<close>. The token is optional (\<open>None\<close> by default);
  \<open>if token:\<close> holds for a non-empty string only. The client is constructed with
  \<open>headers=self.headers\<close>, \<open>timeout=30\<close> and \<open>http2=True\<close>.
\<close>

definition BaseApi_init :: "string \<Rightarrow> string option \<Rightarrow> heap \<Rightarrow> base_api \<times> heap" where
  "BaseApi_init url token h =
     (case new_dict [(''Content-Type'', ''application/json''),
                     (''Accept-Encoding'', ''gzip, deflate, br'')] h of
        (d, h1) \<Rightarrow>
          (let h2 = (case token of
                       Some t \<Rightarrow>
                         if t \<noteq> [] then setitem d ''Authorization'' (''Bearer '' @ t) h1 else h1
                     | None \<Rightarrow> h1)
           in case new_client \<lparr>client_headers = d, client_default_headers = dict_store h2 d,
                                client_timeout = 30, client_http2 = True,
                                is_closed = False\<rparr> h2 of
                (c, h3) \<Rightarrow> (\<lparr>base_url = url, headers = d, client = Some c\<rparr>, h3)))"

text \<open>
  \<open>BaseApi.__del__\<close>. \<open>close\<close> is the client's own \<open>close()\<close>, a parameter: it returns
  the client's new state or raises.
\<close>

definition BaseApi_del :: "(client_state \<Rightarrow> exn + client_state) \<Rightarrow> base_api \<Rightarrow> heap \<Rightarrow> exn + heap" where
  "BaseApi_del close self h =
     (case client self of
        None \<Rightarrow> Inr h
      | Some c \<Rightarrow>
          (case close (client_store h c) of
             Inl e \<Rightarrow> Inl e
           | Inr st \<Rightarrow> Inr (h\<lparr>client_store := (client_store h)(c := st)\<rparr>)))"

section \<open>\<open>BaseApi.request\<close>\<close>

text \<open>
  Python values that can travel as keyword arguments. A float is kept as its 64 bits.
\<close>

datatype pyval =
    PyNone
  | PyBool bool
  | PyInt int
  | PyFloat "64 word"
  | PyStr string
  | PyBytes string
  | PyList "pyval list"
  | PyTuple "pyval list"
  | PyDict "(pyval \<times> pyval) list"

text \<open>\<open>isinstance(data, (dict, list))\<close> and \<open>isinstance(data, str)\<close>.\<close>

fun is_dict_or_list :: "pyval \<Rightarrow> bool" where
  "is_dict_or_list (PyList _) = True"
| "is_dict_or_list (PyDict _) = True"
| "is_dict_or_list _ = False"

fun is_str :: "pyval \<Rightarrow> bool" where
  "is_str (PyStr _) = True"
| "is_str _ = False"

text \<open>The arguments of the call \<open>self.client.request(method, full_url, headers=..., **kwargs)\<close>.\<close>

record outgoing =
  req_method :: string
  req_url :: string
  req_headers :: header_dict
  req_kwargs :: "string \<rightharpoonup> pyval"

text \<open>
  The last step of \<open>request\<close>: \<open>if expected_status: self.check_status_code(...)\<close>, then
  \<open>return response\<close>. \<open>expected_status\<close> is the keyword of that name (\<open>None\<close> when
  absent), an int as \<open>check_status_code\<close> declares it; 0 is falsy.
\<close>

definition validate_status :: "('v \<Rightarrow> string) \<Rightarrow> int option \<Rightarrow> 'v response \<Rightarrow> exn + 'v response" where
  "validate_status py_str expected_status response =
     (case expected_status of
        Some code \<Rightarrow>
          if code \<noteq> 0 then
            (case fst (check_status_code py_str response code) of
               Inl e \<Rightarrow> Inl e
             | Inr _ \<Rightarrow> Inr response)
          else Inr response
      | None \<Rightarrow> Inr response)"

text \<open>
  \<open>request\<close>. \<open>client_request\<close> is the method \<open>request\<close> of the HTTP client, applied to
  the state of the client object \<open>self.client\<close> and to the arguments of the call: it
  returns a response or raises. \<open>hdrs\<close> is the argument \<open>headers\<close> (\<open>None\<close> when
  omitted); \<open>headers or self.headers\<close> takes the session's dict when it is \<open>None\<close> or
  empty. \<open>kwargs\<close> holds the keywords other than \<open>expected_status\<close>. The result is what
  \<open>request\<close> returns or raises.
\<close>

definition request ::
  "(client_state \<Rightarrow> outgoing \<Rightarrow> exn + 'v response) \<Rightarrow> ('v \<Rightarrow> string) \<Rightarrow> heap \<Rightarrow> base_api \<Rightarrow>
   string \<Rightarrow> string \<Rightarrow> header_dict option \<Rightarrow> (string \<rightharpoonup> pyval) \<Rightarrow> int option \<Rightarrow>
   exn + 'v response" where
  "request client_request py_str h self method url hdrs kwargs expected_status =
     (let full_url = base_url self @ url;
          request_headers =
            (case hdrs of
               Some d \<Rightarrow> if d \<noteq> [] then d else dict_store h (headers self)
             | None \<Rightarrow> dict_store h (headers self));
          kwargs2 =
            (if method \<in> set [''POST'', ''PUT'', ''PATCH''] then
               (case kwargs ''data'' of
                  Some data \<Rightarrow>
                    if is_dict_or_list data \<and> \<not> is_str data
                    then (kwargs(''json'' \<mapsto> data))(''data'' := None)
                    else kwargs
                | None \<Rightarrow> kwargs)
             else kwargs)
      in case client self of
           None \<Rightarrow> Inl AttributeError
         | Some c \<Rightarrow>
             (case client_request (client_store h c)
                     \<lparr>req_method = method, req_url = full_url,
                      req_headers = request_headers, req_kwargs = kwargs2\<rparr> of
                Inl e \<Rightarrow> Inl e
              | Inr response \<Rightarrow> validate_status py_str expected_status response))"

section \<open>The HTTP client\<close>

text \<open>
  What \<open>httpx.Client\<close> does with the headers of a call. Header names are compared
  without regard to case.
\<close>

definition lower_char :: "char \<Rightarrow> char" where
  "lower_char c =
     (case map_of (zip ''ABCDEFGHIJKLMNOPQRSTUVWXYZ'' ''abcdefghijklmnopqrstuvwxyz'') c of
        Some l \<Rightarrow> l
      | None \<Rightarrow> c)"

definition lower :: "string \<Rightarrow> string" where
  "lower s = map lower_char s"

text \<open>
  The headers of a call are merged into the client's own: an entry of the client is
  dropped when the call has a header of that name, and the call's entries follow.
\<close>

definition merge_headers :: "header_dict \<Rightarrow> header_dict \<Rightarrow> header_dict" where
  "merge_headers defaults hs =
     filter (\<lambda>kv. lower (fst kv) \<notin> set (map (\<lambda>kv'. lower (fst kv')) hs)) defaults @ hs"

text \<open>
  \<open>httpx.Client.request\<close>: the request that goes out carries the merged headers.
  \<open>transport\<close> is the network: it answers the request that is sent or raises. The
  headers the library adds by itself (\<open>User-Agent\<close> and the like) are left out.
\<close>

definition httpx_request ::
  "(outgoing \<Rightarrow> exn + 'v response) \<Rightarrow> client_state \<Rightarrow> outgoing \<Rightarrow> exn + 'v response" where
  "httpx_request transport st call =
     transport (call\<lparr>req_headers := merge_headers (client_default_headers st) (req_headers call)\<rparr>)"

text \<open>
  \<open>httpx.Client.close\<close>: it releases the connections and marks the client closed
  unless the client is closed already, in which case it does nothing.
\<close>

definition httpx_close :: "client_state \<Rightarrow> exn + client_state" where
  "httpx_close st = (if is_closed st then Inr st else Inr (st\<lparr>is_closed := True\<rparr>))"

section \<open>Sample inputs\<close>

text \<open>Concrete values for the parameters of the model, used where a statement is instantiated.\<close>

definition sample_response :: "int \<Rightarrow> (exn + string) \<Rightarrow> string response" where
  "sample_response code body =
     \<lparr>status_code = code, reason_phrase = ''Reason'', resp_text = ''body'',
      json = body, iter_lines = []\<rparr>"

definition empty_heap :: heap where
  "empty_heap =
     \<lparr>dict_store = (\<lambda>_. []),
      client_store = (\<lambda>_. \<lparr>client_headers = 0, client_default_headers = [],
                             client_timeout = 0, client_http2 = False, is_closed = True\<rparr>),
      next_free = 0\<rparr>"

definition sample_session :: base_api where
  "sample_session = fst (BaseApi_init ''https://api.test'' (Some ''dummy_token'') empty_heap)"

definition sample_heap :: heap where
  "sample_heap = snd (BaseApi_init ''https://api.test'' (Some ''dummy_token'') empty_heap)"

text \<open>A network that answers every request with status 200 and the request itself as body.\<close>

definition echo :: "outgoing \<Rightarrow> exn + outgoing response" where
  "echo call =
     Inr \<lparr>status_code = 200, reason_phrase = ''OK'', resp_text = [],
          json = Inr call, iter_lines = []\<rparr>"

definition no_text :: "outgoing \<Rightarrow> string" where
  "no_text call = []"

text \<open>The request that network received, read back from its answer.\<close>

fun sent :: "exn + outgoing response \<Rightarrow> outgoing option" where
  "sent (Inr response) = (case json response of Inr call \<Rightarrow> Some call | Inl e \<Rightarrow> None)"
| "sent (Inl e) = None"

section \<open>Decimal rendering and the leading digit\<close>

lemma digit_char_2:
  fixes d :: nat
  assumes "d < 10"
  shows "digit_char d = CHR ''2'' \<longleftrightarrow> d = 2"
proof -
  from assms have "d = 0 \<or> d = 1 \<or> d = 2 \<or> d = 3 \<or> d = 4 \<or> d = 5 \<or> d = 6 \<or> d = 7 \<or> d = 8 \<or> d = 9"
    by presburger
  then show ?thesis
    by (auto simp: digit_char_def)
qed

lemma str_nat_nonempty: "str_nat n \<noteq> []"
  by (subst str_nat.simps) simp

lemma lead_shift:
  fixes n :: nat
  assumes "10 \<le> n"
  shows "(\<exists>k. 2 * 10 ^ k \<le> n div 10 \<and> n div 10 < 3 * 10 ^ k)
           \<longleftrightarrow> (\<exists>k. 2 * 10 ^ k \<le> n \<and> n < 3 * 10 ^ k)"
proof
  assume "\<exists>k. 2 * 10 ^ k \<le> n div 10 \<and> n div 10 < 3 * 10 ^ k"
  then obtain k where k: "2 * 10 ^ k \<le> n div 10" "n div 10 < 3 * 10 ^ k"
    by blast
  define m :: nat where "m = 10 ^ k"
  from k have "2 * (10 * m) \<le> n \<and> n < 3 * (10 * m)"
    unfolding m_def by linarith
  then have "2 * 10 ^ Suc k \<le> n \<and> n < 3 * 10 ^ Suc k"
    by (simp add: m_def)
  then show "\<exists>k. 2 * 10 ^ k \<le> n \<and> n < 3 * 10 ^ k"
    by blast
next
  assume "\<exists>k. 2 * 10 ^ k \<le> n \<and> n < 3 * 10 ^ k"
  then obtain k where k: "2 * 10 ^ k \<le> n" "n < 3 * 10 ^ k"
    by blast
  show "\<exists>k. 2 * 10 ^ k \<le> n div 10 \<and> n div 10 < 3 * 10 ^ k"
  proof (cases k)
    case 0
    with k assms show ?thesis by simp
  next
    case (Suc j)
    define m :: nat where "m = 10 ^ j"
    from k Suc have "2 * (10 * m) \<le> n" "n < 3 * (10 * m)"
      by (simp_all add: m_def)
    then have "2 * m \<le> n div 10 \<and> n div 10 < 3 * m"
      by linarith
    then show ?thesis
      unfolding m_def by blast
  qed
qed

lemma hd_str_nat:
  "hd (str_nat n) = CHR ''2'' \<longleftrightarrow> (\<exists>k. 2 * 10 ^ k \<le> n \<and> n < 3 * 10 ^ k)"
proof (induction n rule: str_nat.induct)
  case (1 n)
  show ?case
  proof (cases "n < 10")
    case True
    have "(\<exists>k. 2 * 10 ^ k \<le> n \<and> n < 3 * 10 ^ k) \<longleftrightarrow> n = 2"
    proof
      assume "\<exists>k. 2 * 10 ^ k \<le> n \<and> n < 3 * 10 ^ k"
      then obtain k where k: "2 * 10 ^ k \<le> n" "n < 3 * 10 ^ k"
        by blast
      show "n = 2"
      proof (cases k)
        case 0
        with k show ?thesis by simp
      next
        case (Suc j)
        have "(1::nat) \<le> 10 ^ j" by simp
        with k Suc True show ?thesis by simp
      qed
    next
      assume "n = 2"
      then have "2 * 10 ^ 0 \<le> n \<and> n < 3 * 10 ^ 0" by simp
      then show "\<exists>k. 2 * 10 ^ k \<le> n \<and> n < 3 * 10 ^ k" by blast
    qed
    with True show ?thesis
      by (subst str_nat.simps) (simp add: digit_char_2)
  next
    case False
    then have "hd (str_nat n) = hd (str_nat (n div 10))"
      by (subst str_nat.simps) (simp add: str_nat_nonempty)
    with False 1 lead_shift [of n] show ?thesis by simp
  qed
qed

lemma startswith_2: "startswith s ''2'' \<longleftrightarrow> s \<noteq> [] \<and> hd s = CHR ''2''"
  by (cases s) (auto simp: startswith_def)

lemma nat_le_cast: "(2 * 10 ^ k \<le> int n) = (2 * 10 ^ k \<le> n)"
proof -
  have "int (2 * 10 ^ k) = 2 * 10 ^ k" by simp
  then have "(2 * 10 ^ k \<le> int n) = (int (2 * 10 ^ k) \<le> int n)" by (simp only:)
  then show ?thesis by (simp only: of_nat_le_iff)
qed

lemma nat_less_cast: "(int n < 3 * 10 ^ k) = (n < 3 * 10 ^ k)"
proof -
  have "int (3 * 10 ^ k) = 3 * 10 ^ k" by simp
  then have "(int n < 3 * 10 ^ k) = (int n < int (3 * 10 ^ k))" by (simp only:)
  then show ?thesis by (simp only: of_nat_less_iff)
qed

lemma str_int_leading_2:
  "startswith (str_int i) ''2'' \<longleftrightarrow> (\<exists>k. 2 * 10 ^ k \<le> i \<and> i < 3 * 10 ^ k)"
proof (cases "i < 0")
  case True
  have "\<not> (\<exists>k. 2 * 10 ^ k \<le> i \<and> i < 3 * 10 ^ k)"
  proof
    assume "\<exists>k. 2 * 10 ^ k \<le> i \<and> i < 3 * 10 ^ k"
    then obtain k where "2 * 10 ^ k \<le> i" by blast
    moreover have "(0::int) \<le> 2 * 10 ^ k" by simp
    ultimately show False using True by linarith
  qed
  with True show ?thesis by (simp add: str_int_def startswith_def)
next
  case False
  then have i: "int (nat i) = i" by simp
  have "startswith (str_int i) ''2'' \<longleftrightarrow> hd (str_nat (nat i)) = CHR ''2''"
    using False by (simp add: str_int_def startswith_2 str_nat_nonempty)
  also have "\<dots> \<longleftrightarrow> (\<exists>k. 2 * 10 ^ k \<le> nat i \<and> nat i < 3 * 10 ^ k)"
    by (rule hd_str_nat)
  also have "\<dots> \<longleftrightarrow> (\<exists>k. 2 * 10 ^ k \<le> int (nat i) \<and> int (nat i) < 3 * 10 ^ k)"
    by (simp only: nat_le_cast nat_less_cast)
  also have "\<dots> \<longleftrightarrow> (\<exists>k. 2 * 10 ^ k \<le> i \<and> i < 3 * 10 ^ k)"
    by (simp only: i)
  finally show ?thesis .
qed

section \<open>The status checks\<close>

text \<open>
  C5. \<open>check_status_code_success\<close> returns silently exactly when the decimal form of the
  status code starts with the character 2, that is when its leading digit is 2; for
  every other status it raises an \<open>AssertionError\<close> whose message holds the status
  code, the reason phrase and the body text. It accepts 200, 201, 204 and 299 and
  rejects 400, 404, 500 and 101.
\<close>

theorem check_status_code_success_iff:
  "(check_status_code_success r = Inr () \<longleftrightarrow> startswith (str_int (status_code r)) ''2'')
   \<and> (startswith (str_int (status_code r)) ''2''
        \<longleftrightarrow> (\<exists>k. 2 * 10 ^ k \<le> status_code r \<and> status_code r < 3 * 10 ^ k))
   \<and> (\<not> startswith (str_int (status_code r)) ''2'' \<longrightarrow>
        check_status_code_success r =
          Inl (AssertionError (''Response code = '' @ str_int (status_code r)
                 @ '', error = '' @ reason_phrase r @ '' '' @ resp_text r)))
   \<and> (\<forall>c \<in> {200, 201, 204, 299}. check_status_code_success (r\<lparr>status_code := c\<rparr>) = Inr ())
   \<and> (\<forall>c \<in> {400, 404, 500, 101}. check_status_code_success (r\<lparr>status_code := c\<rparr>) \<noteq> Inr ())"
proof -
  have accepts: "startswith (str_int 200) ''2''" "startswith (str_int 201) ''2''"
    "startswith (str_int 204) ''2''" "startswith (str_int 299) ''2''"
    by (simp_all add: str_int_def str_nat.simps digit_char_def startswith_def)
  have rejects: "\<not> startswith (str_int 400) ''2''" "\<not> startswith (str_int 404) ''2''"
    "\<not> startswith (str_int 500) ''2''" "\<not> startswith (str_int 101) ''2''"
    by (simp_all add: str_int_def str_nat.simps digit_char_def startswith_def)
  have silent: "check_status_code_success r = Inr () \<longleftrightarrow> startswith (str_int (status_code r)) ''2''"
    by (simp add: check_status_code_success_def)
  have leading: "startswith (str_int (status_code r)) ''2''
        \<longleftrightarrow> (\<exists>k. 2 * 10 ^ k \<le> status_code r \<and> status_code r < 3 * 10 ^ k)"
    by (rule str_int_leading_2)
  have raises: "\<not> startswith (str_int (status_code r)) ''2'' \<longrightarrow>
        check_status_code_success r =
          Inl (AssertionError (''Response code = '' @ str_int (status_code r)
                 @ '', error = '' @ reason_phrase r @ '' '' @ resp_text r))"
    by (simp add: check_status_code_success_def)
  have good: "\<forall>c \<in> {200, 201, 204, 299}. check_status_code_success (r\<lparr>status_code := c\<rparr>) = Inr ()"
    using accepts by (simp add: check_status_code_success_def)
  have bad: "\<forall>c \<in> {400, 404, 500, 101}. check_status_code_success (r\<lparr>status_code := c\<rparr>) \<noteq> Inr ()"
    using rejects by (simp add: check_status_code_success_def)
  from silent leading raises good bad show ?thesis
    by blast
qed

theorem check_status_code_success_iff_witness:
  "check_status_code_success (sample_response 204 (Inl JSONDecodeError)) = Inr ()
   \<and> \<not> startswith (str_int (status_code (sample_response 404 (Inl JSONDecodeError)))) ''2''
   \<and> check_status_code_success (sample_response 404 (Inl JSONDecodeError))
       = Inl (AssertionError ''Response code = 404, error = Reason body'')"
  using check_status_code_success_iff [of "sample_response 204 (Inl JSONDecodeError)"]
        check_status_code_success_iff [of "sample_response 404 (Inl JSONDecodeError)"]
  by (simp add: sample_response_def str_int_def str_nat.simps digit_char_def startswith_def)

text \<open>
  What holds of \<open>check_status_code\<close> whenever the body parse, if there is one, returns a
  value or raises \<open>JSONDecodeError\<close>: it returns silently exactly when the status code
  equals the expected code, and on a mismatch the message holds both codes.
\<close>

lemma check_status_code_decodable:
  assumes "status_code r = 200 \<or> json r = Inl JSONDecodeError \<or> (\<exists>v. json r = Inr v)"
  shows "(fst (check_status_code py_str r c) = Inr () \<longleftrightarrow> status_code r = c)
       \<and> (status_code r \<noteq> c \<longrightarrow>
            (\<exists>d. fst (check_status_code py_str r c) =
               Inl (AssertionError (''Wrong response code. Expected = '' @ str_int c
                      @ '', received = '' @ str_int (status_code r) @ '' | error = '' @ d))))"
  using assms
  by (auto simp: check_status_code_def parse_response_to_json_def split: if_splits)

text \<open>
  C1, where the code departs from it. A response with status 400 whose body is not
  UTF-8, so that \<open>response.json()\<close> raises \<open>UnicodeDecodeError\<close>, checked against the
  expected code 400: the codes are equal, yet \<open>check_status_code\<close> does not return
  silently. The exception of the parse leaves the function before the assertion.
\<close>

theorem check_status_code_other_exception:
  "status_code (sample_response 400 (Inl UnicodeDecodeError)) = 400
   \<and> check_status_code id (sample_response 400 (Inl UnicodeDecodeError)) 400
       = (Inl UnicodeDecodeError, 1)
   \<and> fst (check_status_code id (sample_response 400 (Inl UnicodeDecodeError)) 400) \<noteq> Inr ()"
  by (simp add: sample_response_def check_status_code_def parse_response_to_json_def)

text \<open>
  C3, as the code has it. The body is parsed exactly once whenever the status code is
  not 200, whether or not it equals the expected code, and never when it is 200: with
  status 200 the result does not depend on what the parse would give, and with another
  status that equals the expected code the result is decided by the parse. It
  succeeds when the parse returns a value or raises \<open>JSONDecodeError\<close>.
\<close>

theorem check_status_code_parse_attempts:
  "snd (check_status_code py_str r c) = (if status_code r = 200 then 0 else 1)
   \<and> (status_code r = 200 \<longrightarrow>
        check_status_code py_str (r\<lparr>json := j\<rparr>) c = check_status_code py_str r c)
   \<and> (status_code r \<noteq> 200 \<and> status_code r = c \<longrightarrow>
        fst (check_status_code py_str r c) =
          (case json r of
             Inr v \<Rightarrow> Inr ()
           | Inl e \<Rightarrow> if e = JSONDecodeError then Inr () else Inl e))
   \<and> (status_code r \<noteq> 200 \<and> status_code r = c
        \<and> (json r = Inl JSONDecodeError \<or> (\<exists>v. json r = Inr v)) \<longrightarrow>
        check_status_code py_str r c = (Inr (), 1))"
  by (auto simp: check_status_code_def parse_response_to_json_def split: sum.splits)

theorem check_status_code_parse_attempts_witness:
  "status_code (sample_response 400 (Inl JSONDecodeError)) \<noteq> 200
   \<and> status_code (sample_response 400 (Inl JSONDecodeError)) = 400
   \<and> json (sample_response 400 (Inl JSONDecodeError)) = Inl JSONDecodeError
   \<and> check_status_code id (sample_response 400 (Inl JSONDecodeError)) 400 = (Inr (), 1)
   \<and> status_code (sample_response 200 (Inr ''{}'')) = 200
   \<and> check_status_code id (sample_response 200 (Inr ''{}'')\<lparr>json := Inl UnicodeDecodeError\<rparr>) 200
       = check_status_code id (sample_response 200 (Inr ''{}'')) 200"
  using check_status_code_parse_attempts [of id "sample_response 400 (Inl JSONDecodeError)" 400]
        check_status_code_parse_attempts
          [of id "sample_response 200 (Inr ''{}'')" 200 "Inl UnicodeDecodeError"]
  by (simp add: sample_response_def)

text \<open>
  Expecting 400 and receiving 400: the check succeeds, and the body has been parsed.
\<close>

theorem check_status_code_match_parses_counterexample:
  "status_code (sample_response 400 (Inr ''{}'')) \<noteq> 200
   \<and> status_code (sample_response 400 (Inr ''{}'')) = 400
   \<and> fst (check_status_code id (sample_response 400 (Inr ''{}'')) 400) = Inr ()
   \<and> snd (check_status_code id (sample_response 400 (Inr ''{}'')) 400) \<noteq> 0"
  by (simp add: sample_response_def check_status_code_def parse_response_to_json_def)

text \<open>
  C4. When the status code is neither 200 nor the expected code and the body does not
  parse (\<open>JSONDecodeError\<close>), \<open>check_status_code\<close> raises the \<open>AssertionError\<close> of the
  mismatch, never the parse failure, and the message ends with the fixed text
  \<open>Unable to parse error\<close>.
\<close>

theorem check_status_code_unparsable:
  assumes "status_code r \<noteq> 200" and "status_code r \<noteq> c" and "json r = Inl JSONDecodeError"
  shows "fst (check_status_code py_str r c) =
           Inl (AssertionError (''Wrong response code. Expected = '' @ str_int c
                  @ '', received = '' @ str_int (status_code r)
                  @ '' | error = Unable to parse error''))"
  using assms by (simp add: check_status_code_def parse_response_to_json_def)

theorem check_status_code_unparsable_witness:
  "status_code (sample_response 400 (Inl JSONDecodeError)) \<noteq> 200
   \<and> json (sample_response 400 (Inl JSONDecodeError)) = Inl JSONDecodeError
   \<and> fst (check_status_code id (sample_response 400 (Inl JSONDecodeError)) 200) =
       Inl (AssertionError
         ''Wrong response code. Expected = 200, received = 400 | error = Unable to parse error'')"
proof -
  have a: "status_code (sample_response 400 (Inl JSONDecodeError)) \<noteq> 200"
    and b: "json (sample_response 400 (Inl JSONDecodeError)) = Inl JSONDecodeError"
    by (simp_all add: sample_response_def)
  from check_status_code_unparsable [OF a a b, of id] a b show ?thesis
    by (simp add: sample_response_def str_int_def str_nat.simps digit_char_def)
qed

section \<open>The stream decoder\<close>

lemma utf8_wellformed_ascii: "\<forall>b \<in> set bs. b < 0x80 \<Longrightarrow> utf8_wellformed bs"
  by (induction bs) simp_all

lemma decode_utf8_ascii:
  "\<forall>c \<in> set bs. (of_char c :: nat) < 0x80 \<Longrightarrow> decode_utf8 bs = Inr bs"
  by (simp add: decode_utf8_def utf8_wellformed_ascii)

text \<open>
  The loop stops with \<open>AttributeError\<close> at the first non-empty \<open>str\<close> line, whatever
  follows it and whatever was collected before.
\<close>

lemma parse_lines_str_line:
  "s \<noteq> [] \<Longrightarrow> parse_lines loads (StrLine s # rest) chunks = Inl AttributeError"
  by simp

text \<open>
  C2, where the code departs from it. The five lines of the example, as the \<open>str\<close>
  lines that \<open>iter_lines()\<close> of an \<open>httpx.Response\<close> yields: \<open>parse_stream_data\<close> returns
  no list. It raises \<open>AttributeError\<close> at the first line, with any JSON decoder.
\<close>

theorem parse_stream_data_str_lines:
  \<open>parse_stream_data loads
     (r\<lparr>iter_lines := [StrLine ''data: {"a":1}'', StrLine '''', StrLine ''data: not-json'',
                        StrLine ''data: [DONE]'', StrLine ''data: {"a":2}'']\<rparr>)
   = Inl AttributeError\<close>
  by (simp add: parse_stream_data_def)

text \<open>
  On \<open>bytes\<close> lines, which an \<open>httpx.Response\<close> does not yield, the loop does what the
  example asks: with a JSON decoder that decodes the two objects and rejects
  \<open>not-json\<close>, the blank line, the line that is not JSON and the \<open>[DONE]\<close> line are
  dropped and the line after \<open>[DONE]\<close> is still decoded.
\<close>

lemma parse_stream_data_bytes_lines:
  assumes \<open>loads ''{"a":1}'' = Inr v1\<close>
      and \<open>loads ''not-json'' = Inl JSONDecodeError\<close>
      and \<open>loads ''{"a":2}'' = Inr v2\<close>
  shows \<open>parse_stream_data loads
           (r\<lparr>iter_lines := [BytesLine ''data: {"a":1}'', BytesLine '''',
                              BytesLine ''data: not-json'', BytesLine ''data: [DONE]'',
                              BytesLine ''data: {"a":2}'']\<rparr>) = Inr [v1, v2]
         \<and> parse_lines loads (BytesLine ''data: [DONE]'' # rest) chunks
             = parse_lines loads rest chunks\<close>
  using assms
  by (simp add: parse_stream_data_def decode_utf8_ascii startswith_def)

section \<open>Requests\<close>

lemma sample_session_eq:
  "sample_session = \<lparr>base_url = ''https://api.test'', headers = 0, client = Some 1\<rparr>"
  by (simp add: sample_session_def BaseApi_init_def new_dict_def new_client_def
        setitem_def empty_heap_def)

lemma sample_heap_headers:
  "dict_store sample_heap 0 =
     [(''Content-Type'', ''application/json''), (''Accept-Encoding'', ''gzip, deflate, br''),
      (''Authorization'', ''Bearer dummy_token'')]"
  by (simp add: sample_heap_def BaseApi_init_def new_dict_def new_client_def
        setitem_def empty_heap_def)

lemma sample_heap_client:
  "client_default_headers (client_store sample_heap (Suc 0)) =
     [(''Content-Type'', ''application/json''), (''Accept-Encoding'', ''gzip, deflate, br''),
      (''Authorization'', ''Bearer dummy_token'')]"
  by (simp add: sample_heap_def BaseApi_init_def new_dict_def new_client_def
        setitem_def empty_heap_def)

lemma validate_status_None: "validate_status py_str None response = Inr response"
  by (simp add: validate_status_def)

text \<open>
  C6. In a \<open>request\<close> with method POST, PUT or PATCH and a \<open>data\<close> argument, the HTTP
  client is called once, and the result of \<open>request\<close> is made from the client's answer
  to this call: for a dict or a list, the call has the value under the keyword \<open>json\<close>
  (the client then serialises it as JSON) and no keyword \<open>data\<close>, every other keyword
  being kept; for a string, the call has the keywords as the caller gave them, the
  string under \<open>data\<close>. This holds for every client, whatever it does with a call.
\<close>

theorem request_body_encoding:
  assumes "http_method \<in> {''POST'', ''PUT'', ''PATCH''}"
      and "kwargs ''data'' = Some data"
      and "client self = Some c"
  shows "(is_dict_or_list data \<longrightarrow>
           (\<exists>hs. \<forall>client_request py_str expected_status.
              request client_request py_str h self http_method url hdrs kwargs expected_status =
                (case client_request (client_store h c)
                        \<lparr>req_method = http_method, req_url = base_url self @ url,
                         req_headers = hs,
                         req_kwargs = (kwargs(''json'' \<mapsto> data))(''data'' := None)\<rparr> of
                   Inl e \<Rightarrow> Inl e
                 | Inr response \<Rightarrow> validate_status py_str expected_status response)))
       \<and> (is_str data \<longrightarrow>
           (\<exists>hs. \<forall>client_request py_str expected_status.
              request client_request py_str h self http_method url hdrs kwargs expected_status =
                (case client_request (client_store h c)
                        \<lparr>req_method = http_method, req_url = base_url self @ url,
                         req_headers = hs, req_kwargs = kwargs\<rparr> of
                   Inl e \<Rightarrow> Inl e
                 | Inr response \<Rightarrow> validate_status py_str expected_status response)))"
proof (intro conjI impI)
  assume "is_dict_or_list data"
  then have "is_dict_or_list data \<and> \<not> is_str data"
    by (cases data) simp_all
  with assms show "\<exists>hs. \<forall>client_request py_str expected_status.
      request client_request py_str h self http_method url hdrs kwargs expected_status =
        (case client_request (client_store h c)
                \<lparr>req_method = http_method, req_url = base_url self @ url,
                 req_headers = hs,
                 req_kwargs = (kwargs(''json'' \<mapsto> data))(''data'' := None)\<rparr> of
           Inl e \<Rightarrow> Inl e
         | Inr response \<Rightarrow> validate_status py_str expected_status response)"
    by (intro exI [where x = "case hdrs of
           Some d \<Rightarrow> if d \<noteq> [] then d else dict_store h (headers self)
         | None \<Rightarrow> dict_store h (headers self)"]) (auto simp: request_def Let_def)
next
  assume "is_str data"
  then have "\<not> (is_dict_or_list data \<and> \<not> is_str data)"
    by simp
  with assms show "\<exists>hs. \<forall>client_request py_str expected_status.
      request client_request py_str h self http_method url hdrs kwargs expected_status =
        (case client_request (client_store h c)
                \<lparr>req_method = http_method, req_url = base_url self @ url,
                 req_headers = hs, req_kwargs = kwargs\<rparr> of
           Inl e \<Rightarrow> Inl e
         | Inr response \<Rightarrow> validate_status py_str expected_status response)"
    by (intro exI [where x = "case hdrs of
           Some d \<Rightarrow> if d \<noteq> [] then d else dict_store h (headers self)
         | None \<Rightarrow> dict_store h (headers self)"]) (auto simp: request_def Let_def)
qed

theorem request_body_encoding_witness:
  "''POST'' \<in> {''POST'', ''PUT'', ''PATCH''}
   \<and> [''data'' \<mapsto> PyDict [(PyStr ''key'', PyStr ''value'')]] ''data''
       = Some (PyDict [(PyStr ''key'', PyStr ''value'')])
   \<and> client sample_session = Some 1
   \<and> is_dict_or_list (PyDict [(PyStr ''key'', PyStr ''value'')])
   \<and> (\<exists>call. sent (request (httpx_request echo) no_text sample_heap sample_session
                  ''POST'' ''/post_endpoint'' None
                  [''data'' \<mapsto> PyDict [(PyStr ''key'', PyStr ''value'')]] None) = Some call
          \<and> req_kwargs call ''json'' = Some (PyDict [(PyStr ''key'', PyStr ''value'')])
          \<and> req_kwargs call ''data'' = None)
   \<and> ''PUT'' \<in> {''POST'', ''PUT'', ''PATCH''}
   \<and> [''data'' \<mapsto> PyStr ''raw''] ''data'' = Some (PyStr ''raw'')
   \<and> is_str (PyStr ''raw'')
   \<and> (\<exists>call. sent (request (httpx_request echo) no_text sample_heap sample_session
                  ''PUT'' ''/put_endpoint'' None [''data'' \<mapsto> PyStr ''raw''] None) = Some call
          \<and> req_kwargs call = [''data'' \<mapsto> PyStr ''raw''])"
proof -
  have m1: "''POST'' \<in> {''POST'', ''PUT'', ''PATCH''}"
    and m2: "''PUT'' \<in> {''POST'', ''PUT'', ''PATCH''}"
    by simp_all
  have d1: "[''data'' \<mapsto> PyDict [(PyStr ''key'', PyStr ''value'')]] ''data''
              = Some (PyDict [(PyStr ''key'', PyStr ''value'')])"
    and d2: "[''data'' \<mapsto> PyStr ''raw''] ''data'' = Some (PyStr ''raw'')"
    by simp_all
  have cl: "client sample_session = Some 1"
    by (simp add: sample_session_eq)
  have t1: "is_dict_or_list (PyDict [(PyStr ''key'', PyStr ''value'')])"
    and t2: "is_str (PyStr ''raw'')"
    by simp_all
  note dict_case = request_body_encoding
    [where http_method = "''POST''"
       and kwargs = "[''data'' \<mapsto> PyDict [(PyStr ''key'', PyStr ''value'')]]"
       and data = "PyDict [(PyStr ''key'', PyStr ''value'')]"
       and self = sample_session and c = 1 and h = sample_heap
       and url = "''/post_endpoint''" and hdrs = None, OF m1 d1 cl, THEN conjunct1, rule_format, OF t1]
  note str_case = request_body_encoding
    [where http_method = "''PUT''" and kwargs = "[''data'' \<mapsto> PyStr ''raw'']"
       and data = "PyStr ''raw''"
       and self = sample_session and c = 1 and h = sample_heap
       and url = "''/put_endpoint''" and hdrs = None, OF m2 d2 cl, THEN conjunct2, rule_format, OF t2]
  from dict_case obtain hs1 where
    "request (httpx_request echo) no_text sample_heap sample_session ''POST'' ''/post_endpoint''
       None [''data'' \<mapsto> PyDict [(PyStr ''key'', PyStr ''value'')]] None =
     (case httpx_request echo (client_store sample_heap 1)
             \<lparr>req_method = ''POST'', req_url = base_url sample_session @ ''/post_endpoint'',
              req_headers = hs1,
              req_kwargs = ([''data'' \<mapsto> PyDict [(PyStr ''key'', PyStr ''value'')]]
                             (''json'' \<mapsto> PyDict [(PyStr ''key'', PyStr ''value'')]))
                             (''data'' := None)\<rparr> of
        Inl e \<Rightarrow> Inl e
      | Inr response \<Rightarrow> validate_status no_text None response)"
    by blast
  then have w1: "\<exists>call. sent (request (httpx_request echo) no_text sample_heap sample_session
                  ''POST'' ''/post_endpoint'' None
                  [''data'' \<mapsto> PyDict [(PyStr ''key'', PyStr ''value'')]] None) = Some call
          \<and> req_kwargs call ''json'' = Some (PyDict [(PyStr ''key'', PyStr ''value'')])
          \<and> req_kwargs call ''data'' = None"
    by (simp add: httpx_request_def echo_def validate_status_None)
  from str_case obtain hs2 where
    "request (httpx_request echo) no_text sample_heap sample_session ''PUT'' ''/put_endpoint''
       None [''data'' \<mapsto> PyStr ''raw''] None =
     (case httpx_request echo (client_store sample_heap 1)
             \<lparr>req_method = ''PUT'', req_url = base_url sample_session @ ''/put_endpoint'',
              req_headers = hs2, req_kwargs = [''data'' \<mapsto> PyStr ''raw'']\<rparr> of
        Inl e \<Rightarrow> Inl e
      | Inr response \<Rightarrow> validate_status no_text None response)"
    by blast
  then have w2: "\<exists>call. sent (request (httpx_request echo) no_text sample_heap sample_session
                  ''PUT'' ''/put_endpoint'' None [''data'' \<mapsto> PyStr ''raw''] None) = Some call
          \<and> req_kwargs call = [''data'' \<mapsto> PyStr ''raw'']"
    by (simp add: httpx_request_def echo_def validate_status_None)
  from m1 m2 d1 d2 cl t1 t2 w1 w2 show ?thesis
    by (intro conjI)
qed

text \<open>
  What \<open>request\<close> hands to the client as \<open>headers\<close>: the session's own header dict when
  the argument is omitted, the supplied dict when it is not empty.
\<close>

lemma request_headers_argument:
  assumes "client self = Some c"
      and "hdrs = None \<and> hs = dict_store h (headers self) \<or> hdrs = Some hs \<and> hs \<noteq> []"
  shows "\<exists>kw. \<forall>client_request py_str expected_status.
           request client_request py_str h self http_method url hdrs kwargs expected_status =
             (case client_request (client_store h c)
                     \<lparr>req_method = http_method, req_url = base_url self @ url,
                      req_headers = hs, req_kwargs = kw\<rparr> of
                Inl e \<Rightarrow> Inl e
              | Inr response \<Rightarrow> validate_status py_str expected_status response)"
  using assms
  by (intro exI [where x = "if http_method \<in> set [''POST'', ''PUT'', ''PATCH''] then
               (case kwargs ''data'' of
                  Some data \<Rightarrow>
                    if is_dict_or_list data \<and> \<not> is_str data
                    then (kwargs(''json'' \<mapsto> data))(''data'' := None)
                    else kwargs
                | None \<Rightarrow> kwargs)
             else kwargs"]) (auto simp: request_def Let_def)

text \<open>
  C7, where the code departs from it. The session was constructed with a token, so
  its client holds \<open>Authorization\<close> among its own headers. A request is made with a
  supplied header dict that has no \<open>Authorization\<close> entry. The request that reaches the
  network, whatever the network is, carries the supplied entries and the session's
  \<open>Authorization\<close> as well: the supplied dict is not the complete header set.
\<close>

theorem request_supplied_headers_merged:
  "request (httpx_request transport) py_str sample_heap sample_session
     ''POST'' ''/stream/v1/chat/completions''
     (Some [(''Content-Type'', ''application/json''),
            (''Accept-Encoding'', ''gzip, deflate, br'')])
     Map.empty None
   = transport
       \<lparr>req_method = ''POST'', req_url = ''https://api.test/stream/v1/chat/completions'',
        req_headers = [(''Authorization'', ''Bearer dummy_token''),
                       (''Content-Type'', ''application/json''),
                       (''Accept-Encoding'', ''gzip, deflate, br'')],
        req_kwargs = Map.empty\<rparr>"
  by (cases "transport
       \<lparr>req_method = ''POST'', req_url = ''https://api.test/stream/v1/chat/completions'',
        req_headers = [(''Authorization'', ''Bearer dummy_token''),
                       (''Content-Type'', ''application/json''),
                       (''Accept-Encoding'', ''gzip, deflate, br'')],
        req_kwargs = Map.empty\<rparr>")
     (simp_all add: request_def Let_def sample_session_eq sample_heap_client httpx_request_def
        merge_headers_def lower_def lower_char_def validate_status_None)

text \<open>
  C10. An empty dict as \<open>headers\<close> argument is treated as an omitted argument: the
  result of \<open>request\<close> is that of the call without \<open>headers\<close>, and the HTTP client is
  called once, with the session's own header dict as \<open>headers\<close>, the result being made
  from the client's answer to this call. This holds for every client.
\<close>

theorem request_empty_headers_default:
  assumes "client self = Some c"
  shows "request client_request py_str h self http_method url (Some []) kwargs expected_status
           = request client_request py_str h self http_method url None kwargs expected_status
       \<and> (\<exists>kw. \<forall>client_request' py_str' expected_status'.
             request client_request' py_str' h self http_method url (Some []) kwargs expected_status' =
               (case client_request' (client_store h c)
                       \<lparr>req_method = http_method, req_url = base_url self @ url,
                        req_headers = dict_store h (headers self), req_kwargs = kw\<rparr> of
                  Inl e \<Rightarrow> Inl e
                | Inr response \<Rightarrow> validate_status py_str' expected_status' response))"
proof
  show "request client_request py_str h self http_method url (Some []) kwargs expected_status
           = request client_request py_str h self http_method url None kwargs expected_status"
    by (simp add: request_def Let_def)
  from assms show "\<exists>kw. \<forall>client_request' py_str' expected_status'.
             request client_request' py_str' h self http_method url (Some []) kwargs expected_status' =
               (case client_request' (client_store h c)
                       \<lparr>req_method = http_method, req_url = base_url self @ url,
                        req_headers = dict_store h (headers self), req_kwargs = kw\<rparr> of
                  Inl e \<Rightarrow> Inl e
                | Inr response \<Rightarrow> validate_status py_str' expected_status' response)"
    by (intro exI [where x = "if http_method \<in> set [''POST'', ''PUT'', ''PATCH''] then
               (case kwargs ''data'' of
                  Some data \<Rightarrow>
                    if is_dict_or_list data \<and> \<not> is_str data
                    then (kwargs(''json'' \<mapsto> data))(''data'' := None)
                    else kwargs
                | None \<Rightarrow> kwargs)
             else kwargs"]) (auto simp: request_def Let_def)
qed

theorem request_empty_headers_default_witness:
  "client sample_session = Some 1
   \<and> (\<exists>call. sent (request (httpx_request echo) no_text sample_heap sample_session
                  ''GET'' ''/test_endpoint'' (Some []) Map.empty None) = Some call
          \<and> req_headers call =
              [(''Content-Type'', ''application/json''),
               (''Accept-Encoding'', ''gzip, deflate, br''),
               (''Authorization'', ''Bearer dummy_token'')])"
proof -
  have cl: "client sample_session = Some 1"
    by (simp add: sample_session_eq)
  from request_empty_headers_default [OF cl, THEN conjunct2, of sample_heap "''GET''"
         "''/test_endpoint''" Map.empty]
  obtain kw where
    "request (httpx_request echo) no_text sample_heap sample_session ''GET'' ''/test_endpoint''
       (Some []) Map.empty None =
     (case httpx_request echo (client_store sample_heap 1)
             \<lparr>req_method = ''GET'', req_url = base_url sample_session @ ''/test_endpoint'',
              req_headers = dict_store sample_heap (headers sample_session),
              req_kwargs = kw\<rparr> of
        Inl e \<Rightarrow> Inl e
      | Inr response \<Rightarrow> validate_status no_text None response)"
    by blast
  then have "\<exists>call. sent (request (httpx_request echo) no_text sample_heap sample_session
                  ''GET'' ''/test_endpoint'' (Some []) Map.empty None) = Some call
          \<and> req_headers call =
              [(''Content-Type'', ''application/json''),
               (''Accept-Encoding'', ''gzip, deflate, br''),
               (''Authorization'', ''Bearer dummy_token'')]"
    by (simp add: httpx_request_def echo_def validate_status_None sample_session_eq
          sample_heap_headers sample_heap_client merge_headers_def lower_def lower_char_def)
  with cl show ?thesis
    by (intro conjI)
qed

section \<open>Sessions\<close>

lemma BaseApi_init_result:
  "BaseApi_init url token h =
     (\<lparr>base_url = url, headers = next_free h, client = Some (Suc (next_free h))\<rparr>,
      h\<lparr>dict_store := (dict_store h)(next_free h :=
           (case token of
              Some t \<Rightarrow>
                if t \<noteq> [] then
                  [(''Content-Type'', ''application/json''),
                   (''Accept-Encoding'', ''gzip, deflate, br''),
                   (''Authorization'', ''Bearer '' @ t)]
                else [(''Content-Type'', ''application/json''),
                      (''Accept-Encoding'', ''gzip, deflate, br'')]
            | None \<Rightarrow> [(''Content-Type'', ''application/json''),
                         (''Accept-Encoding'', ''gzip, deflate, br'')])),
        client_store := (client_store h)(Suc (next_free h) :=
           \<lparr>client_headers = next_free h,
            client_default_headers =
              (case token of
                Some t \<Rightarrow>
                  if t \<noteq> [] then
                    [(''Content-Type'', ''application/json''),
                     (''Accept-Encoding'', ''gzip, deflate, br''),
                     (''Authorization'', ''Bearer '' @ t)]
                  else [(''Content-Type'', ''application/json''),
                        (''Accept-Encoding'', ''gzip, deflate, br'')]
              | None \<Rightarrow> [(''Content-Type'', ''application/json''),
                           (''Accept-Encoding'', ''gzip, deflate, br'')]),
            client_timeout = 30, client_http2 = True, is_closed = False\<rparr>),
        next_free := Suc (Suc (next_free h))\<rparr>)"
  by (cases token) (simp_all add: BaseApi_init_def new_dict_def new_client_def setitem_def)

text \<open>
  C8. A session constructed with one token, and a second session constructed later
  (on any heap in which the first one's objects are allocated) with a different token:
  their \<open>Authorization\<close> entries differ (the entry is \<open>Bearer\<close> followed by the token;
  an empty token sets none); the two header dicts are different objects and so are the
  two clients, each client constructed with its own session's dict; constructing the
  second session leaves the first one's dict and client untouched; and a write to one
  session's header dict, by item assignment or of any other content, leaves the other
  session's header dict as it was.
\<close>

theorem sessions_independent:
  assumes "t1 \<noteq> t2"
      and "BaseApi_init u1 (Some t1) h = (s1, h1)"
      and "next_free h1 \<le> next_free h'"
      and "BaseApi_init u2 (Some t2) h' = (s2, h2)"
  shows "map_of (dict_store h1 (headers s1)) ''Authorization''
           \<noteq> map_of (dict_store h2 (headers s2)) ''Authorization''
       \<and> (t1 \<noteq> [] \<longrightarrow>
            map_of (dict_store h1 (headers s1)) ''Authorization'' = Some (''Bearer '' @ t1))
       \<and> (t2 \<noteq> [] \<longrightarrow>
            map_of (dict_store h2 (headers s2)) ''Authorization'' = Some (''Bearer '' @ t2))
       \<and> headers s1 \<noteq> headers s2
       \<and> (\<exists>c1 c2. client s1 = Some c1 \<and> client s2 = Some c2 \<and> c1 \<noteq> c2
            \<and> client_headers (client_store h1 c1) = headers s1
            \<and> client_headers (client_store h2 c2) = headers s2
            \<and> client_store h2 c1 = client_store h' c1)
       \<and> dict_store h2 (headers s1) = dict_store h' (headers s1)
       \<and> dict_store (setitem (headers s1) k v h2) (headers s2) = dict_store h2 (headers s2)
       \<and> dict_store (setitem (headers s2) k v h2) (headers s1) = dict_store h2 (headers s1)
       \<and> dict_store (h2\<lparr>dict_store := (dict_store h2)(headers s1 := d)\<rparr>) (headers s2)
           = dict_store h2 (headers s2)
       \<and> dict_store (h2\<lparr>dict_store := (dict_store h2)(headers s2 := d)\<rparr>) (headers s1)
           = dict_store h2 (headers s1)"
proof -
  from assms(2)
  have s1: "s1 = \<lparr>base_url = u1, headers = next_free h, client = Some (Suc (next_free h))\<rparr>"
    and n1: "next_free h1 = Suc (Suc (next_free h))"
    and d1: "dict_store h1 (next_free h) =
               (if t1 \<noteq> [] then
                  [(''Content-Type'', ''application/json''),
                   (''Accept-Encoding'', ''gzip, deflate, br''),
                   (''Authorization'', ''Bearer '' @ t1)]
                else [(''Content-Type'', ''application/json''),
                      (''Accept-Encoding'', ''gzip, deflate, br'')])"
    and c1: "client_headers (client_store h1 (Suc (next_free h))) = next_free h"
    by (auto simp: BaseApi_init_result)
  from assms(4)
  have s2: "s2 = \<lparr>base_url = u2, headers = next_free h', client = Some (Suc (next_free h'))\<rparr>"
    and d2: "dict_store h2 = (dict_store h')(next_free h' :=
               (if t2 \<noteq> [] then
                  [(''Content-Type'', ''application/json''),
                   (''Accept-Encoding'', ''gzip, deflate, br''),
                   (''Authorization'', ''Bearer '' @ t2)]
                else [(''Content-Type'', ''application/json''),
                      (''Accept-Encoding'', ''gzip, deflate, br'')]))"
    and c2: "client_headers (client_store h2 (Suc (next_free h'))) = next_free h'"
    and c3: "\<And>a. a \<noteq> Suc (next_free h') \<Longrightarrow> client_store h2 a = client_store h' a"
    by (auto simp: BaseApi_init_result)
  from assms(3) n1 have later: "next_free h < next_free h'" "Suc (next_free h) < next_free h'"
    by simp_all
  from assms(1) later show ?thesis
    by (auto simp: s1 s2 d1 d2 c1 c2 c3 setitem_def)
qed

theorem sessions_independent_witness:
  "''valid'' \<noteq> ''invalid_token''
   \<and> map_of (dict_store (snd (BaseApi_init ''u'' (Some ''valid'') empty_heap))
        (headers (fst (BaseApi_init ''u'' (Some ''valid'') empty_heap)))) ''Authorization''
       = Some ''Bearer valid''
   \<and> map_of (dict_store (snd (BaseApi_init ''u'' (Some ''invalid_token'')
                (snd (BaseApi_init ''u'' (Some ''valid'') empty_heap))))
        (headers (fst (BaseApi_init ''u'' (Some ''invalid_token'')
                (snd (BaseApi_init ''u'' (Some ''valid'') empty_heap)))))) ''Authorization''
       = Some ''Bearer invalid_token''
   \<and> headers (fst (BaseApi_init ''u'' (Some ''valid'') empty_heap))
       \<noteq> headers (fst (BaseApi_init ''u'' (Some ''invalid_token'')
                (snd (BaseApi_init ''u'' (Some ''valid'') empty_heap))))"
proof -
  have ne: "''valid'' \<noteq> ''invalid_token''"
    by simp
  have a: "BaseApi_init ''u'' (Some ''valid'') empty_heap
             = (fst (BaseApi_init ''u'' (Some ''valid'') empty_heap),
                snd (BaseApi_init ''u'' (Some ''valid'') empty_heap))"
    by simp
  have b: "BaseApi_init ''u'' (Some ''invalid_token'')
               (snd (BaseApi_init ''u'' (Some ''valid'') empty_heap))
             = (fst (BaseApi_init ''u'' (Some ''invalid_token'')
                      (snd (BaseApi_init ''u'' (Some ''valid'') empty_heap))),
                snd (BaseApi_init ''u'' (Some ''invalid_token'')
                      (snd (BaseApi_init ''u'' (Some ''valid'') empty_heap))))"
    by simp
  from sessions_independent [OF ne a le_refl b] ne show ?thesis
    by simp
qed

text \<open>
  C9. With the client's \<open>close()\<close>, a first \<open>__del__\<close> does not raise and leaves the
  client closed, and a second \<open>__del__\<close> after it does not raise either and changes
  nothing. On an object without the attribute \<open>client\<close>, \<open>__del__\<close> does nothing and
  raises nothing, the first time and the second.
\<close>

theorem del_twice:
  "\<exists>h1. BaseApi_del httpx_close self h = Inr h1
        \<and> BaseApi_del httpx_close self h1 = Inr h1
        \<and> (case client self of
             None \<Rightarrow> h1 = h
           | Some c \<Rightarrow> is_closed (client_store h1 c))"
proof (cases "client self")
  case None
  then show ?thesis
    by (simp add: BaseApi_del_def)
next
  case (Some c)
  show ?thesis
  proof (cases "is_closed (client_store h c)")
    case True
    with Some have "BaseApi_del httpx_close self h = Inr h"
      by (simp add: BaseApi_del_def httpx_close_def)
    with Some True show ?thesis
      by simp
  next
    case False
    define h1 where
      "h1 = h\<lparr>client_store := (client_store h)(c := (client_store h c)\<lparr>is_closed := True\<rparr>)\<rparr>"
    from Some False have first: "BaseApi_del httpx_close self h = Inr h1"
      by (simp add: BaseApi_del_def httpx_close_def h1_def)
    have closed: "is_closed (client_store h1 c)"
      by (simp add: h1_def)
    with Some have second: "BaseApi_del httpx_close self h1 = Inr h1"
      by (simp add: BaseApi_del_def httpx_close_def)
    from Some first second closed show ?thesis
      by auto
  qed
qed

theorem del_twice_witness:
  "client sample_session = Some 1
   \<and> \<not> is_closed (client_store sample_heap 1)
   \<and> (\<exists>h1. BaseApi_del httpx_close sample_session sample_heap = Inr h1
          \<and> BaseApi_del httpx_close sample_session h1 = Inr h1
          \<and> is_closed (client_store h1 1))
   \<and> BaseApi_del httpx_close (sample_session\<lparr>client := None\<rparr>) sample_heap = Inr sample_heap"
proof -
  have cl: "client sample_session = Some 1"
    by (simp add: sample_session_eq)
  have op: "\<not> is_closed (client_store sample_heap 1)"
    by (simp add: sample_heap_def BaseApi_init_def new_dict_def new_client_def
          setitem_def empty_heap_def)
  from del_twice [of sample_session sample_heap] cl
  have two: "\<exists>h1. BaseApi_del httpx_close sample_session sample_heap = Inr h1
          \<and> BaseApi_del httpx_close sample_session h1 = Inr h1
          \<and> is_closed (client_store h1 1)"
    by simp
  from del_twice [of "sample_session\<lparr>client := None\<rparr>" sample_heap]
  have none: "BaseApi_del httpx_close (sample_session\<lparr>client := None\<rparr>) sample_heap = Inr sample_heap"
    by auto
  from cl op two none show ?thesis
    by (intro conjI)
qed

end
